theory Spec2Isabelle
  imports Main "HOL-Library.Sublist"
begin

section \<open>JavaScript values\<close>

text \<open>
  The bridge of \<^verbatim>\<open>src/app/(tabs)/explore.tsx\<close> moves untyped values: \<^verbatim>\<open>params?: any\<close>,
  and whatever \<^verbatim>\<open>JSON.parse\<close> returns. They are modelled as \<open>undefined\<close> plus the JSON
  values. An object is the list of its own members, each name once. A string is the
  list of its characters.

  The code never computes with a number: it tests it for truthiness, compares it with
  \<^verbatim>\<open>===\<close>, converts it to text in a template string or in \<^verbatim>\<open>new Error\<close>, and serialises it.
  A number is therefore given by the text that JavaScript's own Number-to-String
  conversion produces for it (\<^verbatim>\<open>0\<close>, \<^verbatim>\<open>-1.5\<close>, \<^verbatim>\<open>18446744073709552000\<close>, \<^verbatim>\<open>1e+21\<close>,
  \<^verbatim>\<open>NaN\<close>, \<^verbatim>\<open>Infinity\<close>). That text determines the number, except that both zeros
  have the text \<^verbatim>\<open>0\<close>, and the code cannot tell them apart.
\<close>

datatype jsval =
    JUndefined
  | JNull
  | JBool bool
  | JNum string
  | JStr string
  | JArr "jsval list"
  | JObj "(string \<times> jsval) list"

datatype error = TypeError | SyntaxError

text \<open>
  ToBoolean, as used by \<^verbatim>\<open>||\<close> and \<^verbatim>\<open>if\<close>: the falsy numbers are the zeros and
  \<^verbatim>\<open>NaN\<close>; arrays and objects are always truthy.
\<close>

fun truthy :: "jsval \<Rightarrow> bool" where
  "truthy JUndefined = False"
| "truthy JNull = False"
| "truthy (JBool b) = b"
| "truthy (JNum t) = (t \<noteq> ''0'' \<and> t \<noteq> ''NaN'')"
| "truthy (JStr s) = (s \<noteq> [])"
| "truthy (JArr xs) = True"
| "truthy (JObj kvs) = True"

text \<open>\<^verbatim>\<open>a || b\<close>\<close>

definition js_or :: "jsval \<Rightarrow> jsval \<Rightarrow> jsval" where
  "js_or a b = (if truthy a then a else b)"

text \<open>
  \<^verbatim>\<open>a === b\<close> where one operand is freshly parsed or a literal: primitives compare by
  value, \<^verbatim>\<open>NaN\<close> being different from itself; an array or object is identical only to
  itself, so never to the other operand.
\<close>

fun strict_eq :: "jsval \<Rightarrow> jsval \<Rightarrow> bool" where
  "strict_eq (JArr xs) b = False"
| "strict_eq (JObj kvs) b = False"
| "strict_eq (JNum t) b = (b = JNum t \<and> t \<noteq> ''NaN'')"
| "strict_eq a b = (a = b)"

text \<open>
  ToString, as a template string \<^verbatim>\<open>${v}\<close> and \<^verbatim>\<open>new Error(v)\<close> apply it. A number
  gives its text.
  An array is its elements joined by commas, \<open>undefined\<close> and \<open>null\<close> elements giving
  the empty string. A plain object is \<^verbatim>\<open>[object Object]\<close> through the inherited
  \<^verbatim>\<open>toString\<close>; an object with a member of its own named \<^verbatim>\<open>toString\<close> (never callable
  in a JSON value) has no usable conversion, and JavaScript throws a TypeError.
\<close>

fun to_string :: "jsval \<Rightarrow> error + string"
  and join_items :: "jsval list \<Rightarrow> error + string" where
  "to_string JUndefined = Inr ''undefined''"
| "to_string JNull = Inr ''null''"
| "to_string (JBool b) = Inr (if b then ''true'' else ''false'')"
| "to_string (JNum t) = Inr t"
| "to_string (JStr s) = Inr s"
| "to_string (JArr xs) = join_items xs"
| "to_string (JObj kvs) =
     (if ''toString'' \<in> set (map fst kvs) then Inl TypeError else Inr ''[object Object]'')"
| "join_items [] = Inr []"
| "join_items (x # xs) =
     (case (if x = JUndefined \<or> x = JNull then Inr [] else to_string x) of
        Inl e \<Rightarrow> Inl e
      | Inr s \<Rightarrow>
          (if xs = [] then Inr s
           else (case join_items xs of Inl e \<Rightarrow> Inl e | Inr r \<Rightarrow> Inr (s @ '','' @ r))))"

text \<open>
  \<^verbatim>\<open>const [a, b] = v\<close>: array destructuring iterates \<open>v\<close>. An array gives its first two
  elements (\<open>undefined\<close> past the end), a string its first two characters, each as a
  string of one character; any other
  value is not iterable and the statement throws a TypeError.
\<close>

definition nth_or_undefined :: "jsval list \<Rightarrow> nat \<Rightarrow> jsval" where
  "nth_or_undefined xs i = (if i < length xs then xs ! i else JUndefined)"

fun destructure2 :: "jsval \<Rightarrow> error + (jsval \<times> jsval)" where
  "destructure2 (JArr xs) = Inr (nth_or_undefined xs 0, nth_or_undefined xs 1)"
| "destructure2 (JStr s) =
     Inr (nth_or_undefined (map (\<lambda>c. JStr [c]) s) 0, nth_or_undefined (map (\<lambda>c. JStr [c]) s) 1)"
| "destructure2 v = Inl TypeError"

text \<open>
  \<^verbatim>\<open>v.name\<close> for a name that no built-in prototype defines (\<^verbatim>\<open>type\<close>, \<^verbatim>\<open>method\<close>,
  \<^verbatim>\<open>params\<close>, \<^verbatim>\<open>success\<close>, \<^verbatim>\<open>result\<close>, \<^verbatim>\<open>errorMessage\<close>): reading a property of
  \<open>undefined\<close> or \<open>null\<close> throws, an object gives its member or \<open>undefined\<close>, every
  other value gives \<open>undefined\<close>.
\<close>

fun get_prop :: "jsval \<Rightarrow> string \<Rightarrow> error + jsval" where
  "get_prop JUndefined k = Inl TypeError"
| "get_prop JNull k = Inl TypeError"
| "get_prop (JObj kvs) k = Inr (case map_of kvs k of None \<Rightarrow> JUndefined | Some v \<Rightarrow> v)"
| "get_prop v k = Inr JUndefined"

section \<open>Host Bridge\<close>

text \<open>
  The host code is a sequence of calls with no result of interest, so a run is the list
  of the calls it made, in order, and the exception that ended it, if any. Each
  constructor is one call expression of the source. \<open>SendWebViewResponse\<close> is the call of
  the component's own function \<^verbatim>\<open>sendWebViewResponse\<close>, whose body is the definition of
  that name below. The \<^verbatim>\<open>onPress\<close> closure of an alert button takes no argument and is the
  list of the calls it makes when the user presses it.
\<close>

datatype call =
    ConsoleLog string "jsval list"
  | ConsoleWarn string error
  | ToastError string
  | ToastSuccess string
  | ToastPlain string
  | AlertAlert string string "button list"
  | SendWebViewResponse jsval bool jsval
  | WebViewPostMessage "(string \<times> jsval) list"
and button = Button (btn_text: string) (btn_style: "string option") (onPress: "call list")

type_synonym run = "call list \<times> error option"

definition nl :: string where
  "nl = [CHR 0x0A]"

definition dq :: string where
  "dq = [CHR 0x22]"

text \<open>
  \<^verbatim>\<open>sendWebViewResponse\<close> (lines 222-242). Its body is one \<^verbatim>\<open>console.log\<close>; the
  \<^verbatim>\<open>webviewRef.current.postMessage\<close> block is commented out in the source, so no
  \<open>WebViewPostMessage\<close> is made.
\<close>

definition sendWebViewResponse :: "jsval \<Rightarrow> bool \<Rightarrow> jsval \<Rightarrow> run" where
  "sendWebViewResponse method success resultOrError =
     (case to_string method of
        Inl e \<Rightarrow> ([], Some e)
      | Inr ms \<Rightarrow>
          ([ConsoleLog (''[RESPONSE to '' @ ms @ ''] success=''
                        @ (if success then ''true'' else ''false'') @ '', data='')
              [resultOrError]], None))"

text \<open>
  \<^verbatim>\<open>onEthereumRequest\<close> (lines 95-216). TypeScript's \<^verbatim>\<open>method: string\<close> is erased at run
  time and \<^verbatim>\<open>handleWebViewMessage\<close> passes \<^verbatim>\<open>data.method\<close> unchecked, so \<open>method\<close> is any
  value; a string method is \<open>JStr m\<close>. The \<^verbatim>\<open>switch\<close> compares with \<^verbatim>\<open>===\<close>.
\<close>

definition onEthereumRequest :: "jsval \<Rightarrow> jsval \<Rightarrow> run" where
  "onEthereumRequest method params =
    (case to_string method of
       Inl e \<Rightarrow> ([], Some e)
     | Inr ms \<Rightarrow>
        (let entry = ConsoleLog (''[EIP-1193 REQUEST] method='' @ ms) [params] in
         if method = JStr ''eth_requestAccounts'' then
           ([entry,
             AlertAlert ''Connection Request''
               (''Uniswap wants to connect your wallet.'' @ nl @ ''Allow?'')
               [Button ''Reject'' (Some ''destructive'')
                  [ToastError ''User rejected wallet connection.'',
                   SendWebViewResponse method False (JStr ''User rejected connection'')],
                Button ''Allow'' None
                  [ToastSuccess ''Wallet connected (mock).'',
                   SendWebViewResponse method True (JArr [JStr ''0xDUMMY_WALLET_ADDRESS''])]]],
            None)
         else if method = JStr ''eth_chainId'' then
           ([entry,
             ConsoleLog ''[eth_chainId] returning 0x1'' [],
             SendWebViewResponse method True (JStr ''0x1'')], None)
         else if method = JStr ''net_version'' then
           ([entry,
             ConsoleLog (''[net_version] returning '' @ dq @ ''1'' @ dq @ '' (mainnet)'') [],
             SendWebViewResponse method True (JStr ''1'')], None)
         else if method = JStr ''eth_accounts'' then
           ([entry,
             ConsoleLog ''[eth_accounts] returning mock account'' [],
             SendWebViewResponse method True (JArr [JStr ''0xDUMMY_WALLET_ADDRESS''])], None)
         else if method = JStr ''eth_sendTransaction'' then
           ([entry,
             AlertAlert ''Transaction Request''
               (''Uniswap wants to send a transaction.'' @ nl @ ''Approve transaction?'')
               [Button ''Reject'' (Some ''destructive'')
                  [ToastError ''Transaction rejected.'',
                   SendWebViewResponse method False (JStr ''User rejected transaction'')],
                Button ''Approve'' None
                  [ToastSuccess (''Transaction approved (mock): '' @ ''0xDUMMY_TRANSACTION_HASH''),
                   SendWebViewResponse method True (JStr ''0xDUMMY_TRANSACTION_HASH'')]]],
            None)
         else if method = JStr ''wallet_switchEthereumChain'' then
           ([entry,
             ConsoleLog ''[wallet_switchEthereumChain] -> mocked success'' [],
             ToastPlain ''Switching Ethereum chain (mock success).'',
             SendWebViewResponse method True JNull], None)
         else if method = JStr ''personal_sign'' then
           (let shown = ConsoleLog ''[personal_sign] request =>'' [params] in
            case destructure2 (js_or params (JArr [])) of
              Inl e \<Rightarrow> ([entry, shown], Some e)
            | Inr (message, address) \<Rightarrow>
               (case to_string message of
                  Inl e \<Rightarrow> ([entry, shown], Some e)
                | Inr msg \<Rightarrow>
                   (case to_string address of
                      Inl e \<Rightarrow> ([entry, shown], Some e)
                    | Inr addr \<Rightarrow>
                       ([entry, shown,
                         AlertAlert ''Signature Request''
                           (''Uniswap wants to sign:'' @ nl @ msg @ nl @ ''With address:'' @ nl
                            @ addr @ nl @ ''Allow?'')
                           [Button ''Reject'' (Some ''destructive'')
                              [ToastError ''Signature rejected.'',
                               SendWebViewResponse method False (JStr ''User rejected signature'')],
                            Button ''Allow'' None
                              [ToastSuccess (''Signed: '' @ take 12 ''0xFAKE_SIGNATURE'' @ ''...''),
                               SendWebViewResponse method True (JStr ''0xFAKE_SIGNATURE'')]]],
                        None))))
         else
           ([entry,
             ConsoleLog ''[EIP-1193] Unrecognized method:'' [method],
             ToastError (''Method not supported: '' @ ms),
             SendWebViewResponse method False (JStr (''Method not supported: '' @ ms))], None)))"

text \<open>The methods of the \<^verbatim>\<open>switch\<close>, in the order of its cases.\<close>

definition dispatch_table :: "string list" where
  "dispatch_table =
     [''eth_requestAccounts'', ''eth_chainId'', ''net_version'', ''eth_accounts'',
      ''eth_sendTransaction'', ''wallet_switchEthereumChain'', ''personal_sign'']"

subsection \<open>Consent\<close>

text \<open>
  Every alert of the source has two buttons, the rejecting one first. A decision presses
  one of them, which runs that button's \<^verbatim>\<open>onPress\<close>.
\<close>

datatype decision = Reject | Approve

definition pressed :: "decision \<Rightarrow> button list \<Rightarrow> call list" where
  "pressed d bs =
     (case d of
        Reject \<Rightarrow> (if 0 < length bs then onPress (bs ! 0) else [])
      | Approve \<Rightarrow> (if 1 < length bs then onPress (bs ! 1) else []))"

fun consent :: "decision \<Rightarrow> call \<Rightarrow> call list" where
  "consent d (AlertAlert title message bs) = pressed d bs"
| "consent d c = []"

text \<open>
  One request followed by the user's decision on each alert it raised: the calls of
  \<^verbatim>\<open>onEthereumRequest\<close>, then those of the pressed buttons.
\<close>

definition dispatch :: "jsval \<Rightarrow> jsval \<Rightarrow> decision \<Rightarrow> run" where
  "dispatch method params d =
     (case onEthereumRequest method params of
        (cs, thrown) \<Rightarrow> (cs @ concat (map (consent d) cs), thrown))"

text \<open>The arguments of the calls of \<^verbatim>\<open>sendWebViewResponse\<close> in a run, in order.\<close>

fun emitted :: "call list \<Rightarrow> (jsval \<times> bool \<times> jsval) list" where
  "emitted [] = []"
| "emitted (SendWebViewResponse method success resultOrError # cs) =
     (method, success, resultOrError) # emitted cs"
| "emitted (c # cs) = emitted cs"

subsection \<open>Messages\<close>

text \<open>
  Both sides exchange text and the only thing either handler does with an inbound text is
  \<^verbatim>\<open>JSON.parse\<close>. A message is therefore given by what \<^verbatim>\<open>JSON.parse\<close> makes of its
  text: \<open>None\<close> when it throws a SyntaxError, the parsed value otherwise.
\<close>

type_synonym message = "jsval option"

text \<open>
  What \<^verbatim>\<open>JSON.parse\<close> reads back from \<^verbatim>\<open>JSON.stringify(v)\<close>: a member whose value is
  \<open>undefined\<close> is left out of its object, an \<open>undefined\<close> element of an array
  becomes \<open>null\<close>, and so does a number that is not finite.
\<close>

fun json :: "jsval \<Rightarrow> jsval"
  and json_items :: "jsval list \<Rightarrow> jsval list"
  and json_members :: "(string \<times> jsval) list \<Rightarrow> (string \<times> jsval) list" where
  "json (JArr xs) = JArr (json_items xs)"
| "json (JObj kvs) = JObj (json_members kvs)"
| "json JUndefined = JUndefined"
| "json JNull = JNull"
| "json (JBool b) = JBool b"
| "json (JNum t) =
     (if t = ''NaN'' \<or> t = ''Infinity'' \<or> t = ''-Infinity'' then JNull else JNum t)"
| "json (JStr s) = JStr s"
| "json_items [] = []"
| "json_items (x # xs) = (if x = JUndefined then JNull else json x) # json_items xs"
| "json_members [] = []"
| "json_members (kv # kvs) =
     (if snd kv = JUndefined then json_members kvs else (fst kv, json (snd kv)) # json_members kvs)"

subsection \<open>The Response message\<close>

text \<open>
  Modelled from the spec: the Response message (spec section 6: \<^verbatim>\<open>result\<close> present iff
  success, \<^verbatim>\<open>errorMessage\<close> present iff not success). The running code builds no such
  message; the source has its construction only in the block commented out of
  \<^verbatim>\<open>sendWebViewResponse\<close> (lines 231-241), which this definition follows member by
  member:
  \<^verbatim>\<open>JSON.stringify({ type: 'ETH_RESPONSE', method, success,
      result: success ? resultOrError : undefined,
      errorMessage: success ? undefined : resultOrError })\<close>
\<close>

definition response_object :: "jsval \<Rightarrow> bool \<Rightarrow> jsval \<Rightarrow> (string \<times> jsval) list" where
  "response_object method success resultOrError =
     [(''type'', JStr ''ETH_RESPONSE''),
      (''method'', method),
      (''success'', JBool success),
      (''result'', if success then resultOrError else JUndefined),
      (''errorMessage'', if success then JUndefined else resultOrError)]"

text \<open>
  Modelled from the spec: the Response on the wire for one call of
  \<^verbatim>\<open>sendWebViewResponse\<close>, that is the members of \<open>response_object\<close> that
  \<^verbatim>\<open>JSON.stringify\<close> writes.
\<close>

definition response :: "jsval \<times> bool \<times> jsval \<Rightarrow> (string \<times> jsval) list" where
  "response a = (case a of (method, success, resultOrError) \<Rightarrow>
     json_members (response_object method success resultOrError))"

definition has_member :: "(string \<times> jsval) list \<Rightarrow> string \<Rightarrow> bool" where
  "has_member kvs k = (k \<in> set (map fst kvs))"

subsection \<open>Inbound messages\<close>

text \<open>
  \<^verbatim>\<open>handleWebViewMessage\<close> (lines 79-88), on an event whose text is the message \<open>parsed\<close>.
  The whole body is inside \<^verbatim>\<open>try\<close>, and the \<^verbatim>\<open>catch\<close> only warns, so the handler itself
  never throws: an exception of \<^verbatim>\<open>onEthereumRequest\<close> ends up in the warning too.
\<close>

definition handleWebViewMessage :: "message \<Rightarrow> call list" where
  "handleWebViewMessage parsed =
     (case parsed of
        None \<Rightarrow> [ConsoleWarn ''Error parsing message from web:'' SyntaxError]
      | Some data \<Rightarrow>
         (case get_prop data ''type'' of
            Inl e \<Rightarrow> [ConsoleWarn ''Error parsing message from web:'' e]
          | Inr t \<Rightarrow>
             if t = JStr ''ETH_REQUEST'' then
               (case get_prop data ''method'' of
                  Inl e \<Rightarrow> [ConsoleWarn ''Error parsing message from web:'' e]
                | Inr method \<Rightarrow>
                   (case get_prop data ''params'' of
                      Inl e \<Rightarrow> [ConsoleWarn ''Error parsing message from web:'' e]
                    | Inr params \<Rightarrow>
                       (case onEthereumRequest method params of
                          (cs, None) \<Rightarrow> cs
                        | (cs, Some e) \<Rightarrow>
                            cs @ [ConsoleWarn ''Error parsing message from web:'' e])))
             else []))"

section \<open>Injected Provider\<close>

text \<open>
  The script \<^verbatim>\<open>injectedJavaScript\<close> (lines 18-70) works on the page's \<^verbatim>\<open>window\<close>. What it
  reads and writes there: \<^verbatim>\<open>window.ethereum\<close>; the objects serialised and handed to
  \<^verbatim>\<open>window.ReactNativeWebView.postMessage\<close>; the timers set; and, for each call of
  \<^verbatim>\<open>request\<close>, the promise it returned and whether its \<^verbatim>\<open>handleMessage\<close> closure is
  a registered listener of \<^verbatim>\<open>message\<close> events.
\<close>

datatype deferred = Pending | Fulfilled jsval | Rejected string

record pending_call =
  pc_method :: jsval
  pc_listening :: bool
  pc_state :: deferred

text \<open>
  \<^verbatim>\<open>window.ethereum\<close>: a plain value (\<open>undefined\<close> when nothing is installed), the object
  of some other wallet, or the provider of this script.
\<close>

datatype capability = Plain jsval | OtherProvider nat | Eip1193Provider

fun capability_truthy :: "capability \<Rightarrow> bool" where
  "capability_truthy (Plain v) = truthy v"
| "capability_truthy (OtherProvider n) = True"
| "capability_truthy Eip1193Provider = True"

record window =
  ethereum :: capability
  outbox :: "(string \<times> jsval) list list"
  timeouts :: "(nat \<times> jsval) list"
  calls :: "pending_call list"

text \<open>\<^verbatim>\<open>resolve\<close> and \<^verbatim>\<open>reject\<close> of a promise: only the first of them settles it.\<close>

definition settle :: "deferred \<Rightarrow> deferred \<Rightarrow> deferred" where
  "settle outcome d = (if d = Pending then outcome else d)"

text \<open>
  \<^verbatim>\<open>handleMessage\<close> (lines 40-54), the listener of the call of \<^verbatim>\<open>request\<close> for \<open>method\<close>,
  on an event whose \<^verbatim>\<open>data\<close> is the message \<open>parsed\<close>. Everything is inside \<^verbatim>\<open>try\<close> with
  an empty \<^verbatim>\<open>catch\<close>: an exception leaves what was done before it, so one thrown by
  \<^verbatim>\<open>new Error(...)\<close> comes after \<^verbatim>\<open>removeEventListener\<close>.
\<close>

definition handleMessage :: "jsval \<Rightarrow> message \<Rightarrow> pending_call \<Rightarrow> pending_call" where
  "handleMessage method parsed c =
     (case parsed of
        None \<Rightarrow> c
      | Some data \<Rightarrow>
         (case get_prop data ''type'' of
            Inl e \<Rightarrow> c
          | Inr t \<Rightarrow>
             if t = JStr ''ETH_RESPONSE''
                \<and> (case get_prop data ''method'' of Inl e \<Rightarrow> False | Inr m \<Rightarrow> strict_eq m method)
             then
               (let removed = c\<lparr>pc_listening := False\<rparr> in
                case get_prop data ''success'' of
                  Inl e \<Rightarrow> removed
                | Inr success \<Rightarrow>
                   if truthy success then
                     (case get_prop data ''result'' of
                        Inl e \<Rightarrow> removed
                      | Inr result \<Rightarrow>
                          removed\<lparr>pc_state := settle (Fulfilled result) (pc_state c)\<rparr>)
                   else
                     (case get_prop data ''errorMessage'' of
                        Inl e \<Rightarrow> removed
                      | Inr errorMessage \<Rightarrow>
                         (case to_string (js_or errorMessage (JStr ''Request failed'')) of
                            Inl e \<Rightarrow> removed
                          | Inr text \<Rightarrow>
                              removed\<lparr>pc_state := settle (Rejected text) (pc_state c)\<rparr>)))
             else c))"

text \<open>A \<^verbatim>\<open>message\<close> event on the window runs the listeners registered at that moment.\<close>

definition deliver :: "message \<Rightarrow> pending_call \<Rightarrow> pending_call" where
  "deliver parsed c = (if pc_listening c then handleMessage (pc_method c) parsed c else c)"

definition window_message :: "message \<Rightarrow> window \<Rightarrow> window" where
  "window_message parsed w = w\<lparr>calls := map (deliver parsed) (calls w)\<rparr>"

text \<open>
  \<^verbatim>\<open>request({ method, params })\<close> (lines 29-58): posts the Request, then registers the
  listener of a new pending promise.
\<close>

definition request_object :: "jsval \<Rightarrow> jsval \<Rightarrow> (string \<times> jsval) list" where
  "request_object method params =
     [(''type'', JStr ''ETH_REQUEST''), (''method'', method), (''params'', params)]"

definition request :: "jsval \<Rightarrow> jsval \<Rightarrow> window \<Rightarrow> window" where
  "request method params w =
     w\<lparr>outbox := outbox w @ [request_object method params],
       calls := calls w @ [\<lparr>pc_method = method, pc_listening = True, pc_state = Pending\<rparr>]\<rparr>"

text \<open>
  The script itself (lines 19-68): the guard, the assignment of the provider, and the
  timer that asks for the accounts after 3000 ms.
\<close>

definition injectedJavaScript :: "window \<Rightarrow> window" where
  "injectedJavaScript w =
     (if capability_truthy (ethereum w) then w
      else w\<lparr>ethereum := Eip1193Provider,
             timeouts := timeouts w @ [(3000, JStr ''eth_requestAccounts'')]\<rparr>)"

section \<open>The mounted application\<close>

text \<open>
  \<^verbatim>\<open>App\<close> (lines 244-274) mounts a \<^verbatim>\<open>WebView\<close> and a debug button. Of the props of the
  \<^verbatim>\<open>WebView\<close> only \<^verbatim>\<open>url\<close> is given; \<^verbatim>\<open>ref\<close>, \<^verbatim>\<open>onMessage\<close>, \<^verbatim>\<open>injectedJavaScript\<close> and
  the others are commented out.
\<close>

record webview_props =
  wv_url :: string
  wv_onMessage :: "(message \<Rightarrow> call list) option"
  wv_injectedJavaScript :: "(window \<Rightarrow> window) option"

definition App_WebView :: webview_props where
  "App_WebView =
     \<lparr>wv_url = ''https://app.uniswap.org'', wv_onMessage = None, wv_injectedJavaScript = None\<rparr>"

text \<open>The \<^verbatim>\<open>onPress\<close> of the button \<^verbatim>\<open>Debug: Manually Connect\<close>.\<close>

definition debug_onPress :: run where
  "debug_onPress = onEthereumRequest (JStr ''eth_requestAccounts'') JUndefined"

text \<open>
  The two sides together, as the comments of the source describe the platform: the
  \<^verbatim>\<open>onMessage\<close> prop is called when the page posts a message, the
  \<^verbatim>\<open>injectedJavaScript\<close> prop runs in the page when it has loaded, and a
  \<^verbatim>\<open>postMessage\<close> on the \<^verbatim>\<open>WebView\<close> raises a \<^verbatim>\<open>message\<close> event in the page. Only this
  channel is modelled; other scripts of the page raising \<^verbatim>\<open>message\<close> events are not.
  The state keeps every call the host made, the alerts on screen, the messages its
  \<^verbatim>\<open>onMessage\<close> handler was given, the messages posted into the page, and the page's window.
  A timer of the script calls \<^verbatim>\<open>window.ethereum.request\<close>; what that does when another
  wallet's object has taken the place of this provider is not part of this source, and
  the timer is then only removed.
\<close>

record app =
  host_calls :: "call list"
  open_alerts :: "button list list"
  received :: "message list"
  posted :: "(string \<times> jsval) list list"
  page :: window

text \<open>A call of \<^verbatim>\<open>sendWebViewResponse\<close> is followed by the calls of its body.\<close>

fun inline :: "call \<Rightarrow> call list" where
  "inline (SendWebViewResponse method success resultOrError) =
     SendWebViewResponse method success resultOrError
       # fst (sendWebViewResponse method success resultOrError)"
| "inline c = [c]"

fun perform :: "call \<Rightarrow> app \<Rightarrow> app" where
  "perform (AlertAlert title message bs) s =
     s\<lparr>host_calls := host_calls s @ [AlertAlert title message bs],
       open_alerts := open_alerts s @ [bs]\<rparr>"
| "perform (WebViewPostMessage obj) s =
     s\<lparr>host_calls := host_calls s @ [WebViewPostMessage obj],
       posted := posted s @ [obj],
       page := window_message (Some (json (JObj obj))) (page s)\<rparr>"
| "perform c s = s\<lparr>host_calls := host_calls s @ [c]\<rparr>"

definition host_run :: "call list \<Rightarrow> app \<Rightarrow> app" where
  "host_run cs s = fold perform (concat (map inline cs)) s"

text \<open>A message posted by the page reaches the host only through \<^verbatim>\<open>onMessage\<close>.\<close>

definition to_host :: "webview_props \<Rightarrow> message \<Rightarrow> app \<Rightarrow> app" where
  "to_host props parsed s =
     (case wv_onMessage props of
        None \<Rightarrow> s
      | Some handler \<Rightarrow> host_run (handler parsed) (s\<lparr>received := received s @ [parsed]\<rparr>))"

definition page_request :: "webview_props \<Rightarrow> jsval \<Rightarrow> jsval \<Rightarrow> app \<Rightarrow> app" where
  "page_request props method params s =
     to_host props (Some (json (JObj (request_object method params))))
       (s\<lparr>page := request method params (page s)\<rparr>)"

datatype event =
    PressDebug
  | PressAlertButton nat nat
  | PageLoaded
  | PageCallsRequest jsval jsval
  | TimeoutFires
  | PagePostsMessage message

fun step :: "webview_props \<Rightarrow> event \<Rightarrow> app \<Rightarrow> app" where
  "step props PressDebug s = host_run (fst debug_onPress) s"
| "step props (PressAlertButton i j) s =
     (if i < length (open_alerts s) \<and> j < length (open_alerts s ! i)
      then host_run (onPress (open_alerts s ! i ! j))
             (s\<lparr>open_alerts := take i (open_alerts s) @ drop (Suc i) (open_alerts s)\<rparr>)
      else s)"
| "step props PageLoaded s =
     (case wv_injectedJavaScript props of
        None \<Rightarrow> s
      | Some script \<Rightarrow> s\<lparr>page := script (page s)\<rparr>)"
| "step props (PageCallsRequest method params) s =
     (if ethereum (page s) = Eip1193Provider then page_request props method params s else s)"
| "step props TimeoutFires s =
     (case timeouts (page s) of
        [] \<Rightarrow> s
      | t # ts \<Rightarrow>
         (let s' = s\<lparr>page := (page s)\<lparr>timeouts := ts\<rparr>\<rparr>
          in if ethereum (page s) = Eip1193Provider
             then page_request props (snd t) JUndefined s' else s'))"
| "step props (PagePostsMessage parsed) s = to_host props parsed s"

definition run_events :: "webview_props \<Rightarrow> event list \<Rightarrow> app \<Rightarrow> app" where
  "run_events props evs s = fold (step props) evs s"

definition initial :: app where
  "initial =
     \<lparr>host_calls = [], open_alerts = [], received = [], posted = [],
      page = \<lparr>ethereum = Plain JUndefined, outbox = [], timeouts = [], calls = []\<rparr>\<rparr>"

section \<open>Observations used in the statements\<close>

text \<open>The texts of the consent prompts shown in a run.\<close>

fun prompts :: "call list \<Rightarrow> string list" where
  "prompts [] = []"
| "prompts (AlertAlert title message bs # cs) = message # prompts cs"
| "prompts (c # cs) = prompts cs"

text \<open>A call that neither opens an alert nor posts into the \<^verbatim>\<open>WebView\<close>.\<close>

fun quiet :: "call \<Rightarrow> bool" where
  "quiet (AlertAlert title message bs) = False"
| "quiet (WebViewPostMessage obj) = False"
| "quiet c = True"

definition quiet_alerts :: "button list list \<Rightarrow> bool" where
  "quiet_alerts alerts = (\<forall>bs \<in> set alerts. \<forall>b \<in> set bs. \<forall>c \<in> set (onPress b). quiet c)"

text \<open>
  The page's window \<open>w'\<close> differs from \<open>w\<close> only by timers, posted requests and new
  calls, each still pending with its listener registered.
\<close>

definition extends :: "window \<Rightarrow> window \<Rightarrow> bool" where
  "extends w w' =
     (ethereum w' = ethereum w
      \<and> take (length (calls w)) (calls w') = calls w
      \<and> (\<forall>c \<in> set (drop (length (calls w)) (calls w')). pc_state c = Pending \<and> pc_listening c))"

section \<open>The branches of the dispatch\<close>

text \<open>
  One equation for each case of the \<^verbatim>\<open>switch\<close> of \<^verbatim>\<open>onEthereumRequest\<close>, so that later
  proofs rewrite with the branch they are about.
\<close>

lemma run_requestAccounts:
  "onEthereumRequest (JStr ''eth_requestAccounts'') params =
     ([ConsoleLog ''[EIP-1193 REQUEST] method=eth_requestAccounts'' [params],
       AlertAlert ''Connection Request''
         (''Uniswap wants to connect your wallet.'' @ nl @ ''Allow?'')
         [Button ''Reject'' (Some ''destructive'')
            [ToastError ''User rejected wallet connection.'',
             SendWebViewResponse (JStr ''eth_requestAccounts'') False (JStr ''User rejected connection'')],
          Button ''Allow'' None
            [ToastSuccess ''Wallet connected (mock).'',
             SendWebViewResponse (JStr ''eth_requestAccounts'') True (JArr [JStr ''0xDUMMY_WALLET_ADDRESS''])]]],
      None)"
  by (simp add: onEthereumRequest_def)

lemma run_chainId:
  "onEthereumRequest (JStr ''eth_chainId'') params =
     ([ConsoleLog ''[EIP-1193 REQUEST] method=eth_chainId'' [params],
       ConsoleLog ''[eth_chainId] returning 0x1'' [],
       SendWebViewResponse (JStr ''eth_chainId'') True (JStr ''0x1'')], None)"
  by (simp add: onEthereumRequest_def)

lemma run_net_version:
  "onEthereumRequest (JStr ''net_version'') params =
     ([ConsoleLog ''[EIP-1193 REQUEST] method=net_version'' [params],
       ConsoleLog (''[net_version] returning '' @ dq @ ''1'' @ dq @ '' (mainnet)'') [],
       SendWebViewResponse (JStr ''net_version'') True (JStr ''1'')], None)"
  by (simp add: onEthereumRequest_def)

lemma run_accounts:
  "onEthereumRequest (JStr ''eth_accounts'') params =
     ([ConsoleLog ''[EIP-1193 REQUEST] method=eth_accounts'' [params],
       ConsoleLog ''[eth_accounts] returning mock account'' [],
       SendWebViewResponse (JStr ''eth_accounts'') True (JArr [JStr ''0xDUMMY_WALLET_ADDRESS''])], None)"
  by (simp add: onEthereumRequest_def)

lemma run_sendTransaction:
  "onEthereumRequest (JStr ''eth_sendTransaction'') params =
     ([ConsoleLog ''[EIP-1193 REQUEST] method=eth_sendTransaction'' [params],
       AlertAlert ''Transaction Request''
         (''Uniswap wants to send a transaction.'' @ nl @ ''Approve transaction?'')
         [Button ''Reject'' (Some ''destructive'')
            [ToastError ''Transaction rejected.'',
             SendWebViewResponse (JStr ''eth_sendTransaction'') False (JStr ''User rejected transaction'')],
          Button ''Approve'' None
            [ToastSuccess ''Transaction approved (mock): 0xDUMMY_TRANSACTION_HASH'',
             SendWebViewResponse (JStr ''eth_sendTransaction'') True (JStr ''0xDUMMY_TRANSACTION_HASH'')]]],
      None)"
  by (simp add: onEthereumRequest_def)

lemma run_switchChain:
  "onEthereumRequest (JStr ''wallet_switchEthereumChain'') params =
     ([ConsoleLog ''[EIP-1193 REQUEST] method=wallet_switchEthereumChain'' [params],
       ConsoleLog ''[wallet_switchEthereumChain] -> mocked success'' [],
       ToastPlain ''Switching Ethereum chain (mock success).'',
       SendWebViewResponse (JStr ''wallet_switchEthereumChain'') True JNull], None)"
  by (simp add: onEthereumRequest_def)

lemma run_personal_sign:
  "onEthereumRequest (JStr ''personal_sign'') params =
     (case destructure2 (js_or params (JArr [])) of
        Inl e \<Rightarrow>
          ([ConsoleLog ''[EIP-1193 REQUEST] method=personal_sign'' [params],
            ConsoleLog ''[personal_sign] request =>'' [params]], Some e)
      | Inr (message, address) \<Rightarrow>
         (case to_string message of
            Inl e \<Rightarrow>
              ([ConsoleLog ''[EIP-1193 REQUEST] method=personal_sign'' [params],
                ConsoleLog ''[personal_sign] request =>'' [params]], Some e)
          | Inr msg \<Rightarrow>
             (case to_string address of
                Inl e \<Rightarrow>
                  ([ConsoleLog ''[EIP-1193 REQUEST] method=personal_sign'' [params],
                    ConsoleLog ''[personal_sign] request =>'' [params]], Some e)
              | Inr addr \<Rightarrow>
                 ([ConsoleLog ''[EIP-1193 REQUEST] method=personal_sign'' [params],
                   ConsoleLog ''[personal_sign] request =>'' [params],
                   AlertAlert ''Signature Request''
                     (''Uniswap wants to sign:'' @ nl @ msg @ nl @ ''With address:'' @ nl
                      @ addr @ nl @ ''Allow?'')
                     [Button ''Reject'' (Some ''destructive'')
                        [ToastError ''Signature rejected.'',
                         SendWebViewResponse (JStr ''personal_sign'') False (JStr ''User rejected signature'')],
                      Button ''Allow'' None
                        [ToastSuccess ''Signed: 0xFAKE_SIGNA...'',
                         SendWebViewResponse (JStr ''personal_sign'') True (JStr ''0xFAKE_SIGNATURE'')]]],
                  None))))"
  by (simp add: onEthereumRequest_def Let_def split: sum.split prod.split)

lemma run_default:
  assumes "to_string method = Inr ms" and "method \<notin> JStr ` set dispatch_table"
  shows "onEthereumRequest method params =
     ([ConsoleLog (''[EIP-1193 REQUEST] method='' @ ms) [params],
       ConsoleLog ''[EIP-1193] Unrecognized method:'' [method],
       ToastError (''Method not supported: '' @ ms),
       SendWebViewResponse method False (JStr (''Method not supported: '' @ ms))], None)"
  using assms by (simp add: onEthereumRequest_def dispatch_table_def)

lemma run_unprintable:
  assumes "to_string method = Inl e"
  shows "onEthereumRequest method params = ([], Some e)"
  using assms by (simp add: onEthereumRequest_def)



lemma seven_cases:
  assumes "P1 \<Longrightarrow> R" "P2 \<Longrightarrow> R" "P3 \<Longrightarrow> R" "P4 \<Longrightarrow> R" "P5 \<Longrightarrow> R" "P6 \<Longrightarrow> R" "P7 \<Longrightarrow> R"
    and "\<not> P1 \<Longrightarrow> \<not> P2 \<Longrightarrow> \<not> P3 \<Longrightarrow> \<not> P4 \<Longrightarrow> \<not> P5 \<Longrightarrow> \<not> P6 \<Longrightarrow> \<not> P7 \<Longrightarrow> R"
  shows R
  using assms by blast

lemma not_in_table:
  assumes "method \<noteq> JStr ''eth_requestAccounts''" "method \<noteq> JStr ''eth_chainId''"
    "method \<noteq> JStr ''net_version''" "method \<noteq> JStr ''eth_accounts''"
    "method \<noteq> JStr ''eth_sendTransaction''" "method \<noteq> JStr ''wallet_switchEthereumChain''"
    "method \<noteq> JStr ''personal_sign''"
  shows "method \<notin> JStr ` set dispatch_table"
  using assms unfolding dispatch_table_def list.set image_insert image_empty insert_iff empty_iff
  by simp

lemma method_cases:
  obtains (unprintable) e where "to_string method = Inl e"
  | (requestAccounts) "method = JStr ''eth_requestAccounts''"
  | (chainId) "method = JStr ''eth_chainId''"
  | (net_version) "method = JStr ''net_version''"
  | (accounts) "method = JStr ''eth_accounts''"
  | (sendTransaction) "method = JStr ''eth_sendTransaction''"
  | (switchChain) "method = JStr ''wallet_switchEthereumChain''"
  | (personal_sign) "method = JStr ''personal_sign''"
  | (unsupported) ms where "to_string method = Inr ms" "method \<notin> JStr ` set dispatch_table"
proof (rule seven_cases [of "method = JStr ''eth_requestAccounts''" thesis
      "method = JStr ''eth_chainId''" "method = JStr ''net_version''"
      "method = JStr ''eth_accounts''" "method = JStr ''eth_sendTransaction''"
      "method = JStr ''wallet_switchEthereumChain''" "method = JStr ''personal_sign''"])
  assume n: "method \<noteq> JStr ''eth_requestAccounts''" "method \<noteq> JStr ''eth_chainId''"
    "method \<noteq> JStr ''net_version''" "method \<noteq> JStr ''eth_accounts''"
    "method \<noteq> JStr ''eth_sendTransaction''" "method \<noteq> JStr ''wallet_switchEthereumChain''"
    "method \<noteq> JStr ''personal_sign''"
  have out: "method \<notin> JStr ` set dispatch_table"
    using n by (rule not_in_table)
  show thesis
  proof (cases "to_string method")
    case (Inl e)
    then show thesis by (rule unprintable)
  next
    case (Inr ms)
    then show thesis using out by (rule unsupported)
  qed
next
  assume "method = JStr ''eth_requestAccounts''"
  then show thesis by (rule requestAccounts)
next
  assume "method = JStr ''eth_chainId''"
  then show thesis by (rule chainId)
next
  assume "method = JStr ''net_version''"
  then show thesis by (rule net_version)
next
  assume "method = JStr ''eth_accounts''"
  then show thesis by (rule accounts)
next
  assume "method = JStr ''eth_sendTransaction''"
  then show thesis by (rule sendTransaction)
next
  assume "method = JStr ''wallet_switchEthereumChain''"
  then show thesis by (rule switchChain)
next
  assume "method = JStr ''personal_sign''"
  then show thesis by (rule personal_sign)
qed


lemma emitted_dispatch:
  assumes "(m, s, r) \<in> set (emitted (fst (dispatch method params d)))"
  shows "m = method \<and> r \<noteq> JUndefined"
proof (cases "method" rule: method_cases)
  case (unprintable e)
  with assms show ?thesis by (simp add: dispatch_def run_unprintable)
next
  case requestAccounts
  with assms show ?thesis
    by (cases d) (auto simp add: dispatch_def run_requestAccounts pressed_def)
next
  case chainId
  with assms show ?thesis by (simp add: dispatch_def run_chainId)
next
  case net_version
  with assms show ?thesis by (simp add: dispatch_def run_net_version)
next
  case accounts
  with assms show ?thesis by (simp add: dispatch_def run_accounts)
next
  case sendTransaction
  with assms show ?thesis
    by (cases d) (auto simp add: dispatch_def run_sendTransaction pressed_def)
next
  case switchChain
  with assms show ?thesis by (simp add: dispatch_def run_switchChain)
next
  case personal_sign
  with assms show ?thesis
    by (cases d) (auto simp add: dispatch_def run_personal_sign pressed_def split: sum.splits)
next
  case (unsupported ms)
  with assms show ?thesis by (simp add: dispatch_def run_default)
qed

lemma emitted_once:
  assumes "snd (onEthereumRequest method params) = None"
  shows "\<exists>s r. emitted (fst (dispatch method params d)) = [(method, s, r)]"
proof (cases "method" rule: method_cases)
  case (unprintable e)
  with assms show ?thesis by (simp add: run_unprintable)
next
  case requestAccounts
  then show ?thesis
    by (cases d) (auto simp add: dispatch_def run_requestAccounts pressed_def)
next
  case chainId
  then show ?thesis by (auto simp add: dispatch_def run_chainId)
next
  case net_version
  then show ?thesis by (auto simp add: dispatch_def run_net_version)
next
  case accounts
  then show ?thesis by (auto simp add: dispatch_def run_accounts)
next
  case sendTransaction
  then show ?thesis
    by (cases d) (auto simp add: dispatch_def run_sendTransaction pressed_def)
next
  case switchChain
  then show ?thesis by (auto simp add: dispatch_def run_switchChain)
next
  case personal_sign
  with assms show ?thesis
    by (cases d) (auto simp add: dispatch_def run_personal_sign pressed_def split: sum.splits)
next
  case (unsupported ms)
  then show ?thesis by (auto simp add: dispatch_def run_default)
qed

section \<open>One Response per Request\<close>

text \<open>
  Claim C1: for every well-formed Request with any method string, one decision per
  consent prompt, the dispatch calls \<^verbatim>\<open>sendWebViewResponse\<close> exactly once, with the
  method of the Request. Lemma \<open>emitted_once\<close> above is that statement for every run that
  does not throw. The code does not reach it for \<^verbatim>\<open>personal_sign\<close> when \<^verbatim>\<open>params\<close> is a
  truthy value that cannot be iterated, here the object \<^verbatim>\<open>{}\<close>: the destructuring
  \<^verbatim>\<open>const [message, address] = params || []\<close> throws a TypeError after the two log
  lines, no alert is shown and no response is emitted for either decision. Through
  \<^verbatim>\<open>handleWebViewMessage\<close> the exception ends in the warning of its \<^verbatim>\<open>catch\<close>.
\<close>

theorem personal_sign_object_params_throws:
  "onEthereumRequest (JStr ''personal_sign'') (JObj []) =
     ([ConsoleLog ''[EIP-1193 REQUEST] method=personal_sign'' [JObj []],
       ConsoleLog ''[personal_sign] request =>'' [JObj []]], Some TypeError)
   \<and> emitted (fst (dispatch (JStr ''personal_sign'') (JObj []) Approve)) = []
   \<and> emitted (fst (dispatch (JStr ''personal_sign'') (JObj []) Reject)) = []
   \<and> handleWebViewMessage
        (Some (JObj [(''type'', JStr ''ETH_REQUEST''), (''method'', JStr ''personal_sign''),
                     (''params'', JObj [])])) =
       [ConsoleLog ''[EIP-1193 REQUEST] method=personal_sign'' [JObj []],
        ConsoleLog ''[personal_sign] request =>'' [JObj []],
        ConsoleWarn ''Error parsing message from web:'' TypeError]"
  by (simp add: run_personal_sign dispatch_def handleWebViewMessage_def js_or_def)

section \<open>Result and error message exclude each other\<close>

lemma has_member_json_members:
  "has_member (json_members kvs) k \<longleftrightarrow> (\<exists>v. (k, v) \<in> set kvs \<and> v \<noteq> JUndefined)"
  by (induction kvs) (auto simp add: has_member_def)

lemma response_members:
  assumes "r \<noteq> JUndefined"
  shows "has_member (response (m, ok, r)) ''result'' = ok"
    and "has_member (response (m, ok, r)) ''errorMessage'' = (\<not> ok)"
  using assms
  by (simp_all only: response_def prod.case has_member_json_members)
     (auto simp add: response_object_def)

text \<open>
  Claim C2: for every call of \<^verbatim>\<open>sendWebViewResponse\<close> that the dispatch makes, in every
  branch and for either decision, the Response written for it has \<^verbatim>\<open>result\<close> and no
  \<^verbatim>\<open>errorMessage\<close> when \<^verbatim>\<open>success\<close> is true, and \<^verbatim>\<open>errorMessage\<close> and no \<^verbatim>\<open>result\<close> when
  it is false; so never both. The method is any value and the params are any value.
\<close>

theorem response_result_xor_errorMessage:
  "\<forall>a \<in> set (emitted (fst (dispatch method params d))).
     (case a of (m, success, r) \<Rightarrow>
        (success \<longrightarrow> has_member (response a) ''result''
                      \<and> \<not> has_member (response a) ''errorMessage'')
      \<and> (\<not> success \<longrightarrow> has_member (response a) ''errorMessage''
                        \<and> \<not> has_member (response a) ''result''))"
proof
  fix a
  assume a: "a \<in> set (emitted (fst (dispatch method params d)))"
  obtain m ok r where eq: "a = (m, ok, r)"
    by (cases a) auto
  from a eq have "r \<noteq> JUndefined"
    using emitted_dispatch by blast
  then show "case a of (m, success, r) \<Rightarrow>
        (success \<longrightarrow> has_member (response a) ''result''
                      \<and> \<not> has_member (response a) ''errorMessage'')
      \<and> (\<not> success \<longrightarrow> has_member (response a) ''errorMessage''
                        \<and> \<not> has_member (response a) ''result'')"
    unfolding eq by (simp add: response_members)
qed

theorem response_result_xor_errorMessage_witness:
  "emitted (fst (dispatch (JStr ''eth_sendTransaction'') JUndefined Reject)) =
     [(JStr ''eth_sendTransaction'', False, JStr ''User rejected transaction'')]
   \<and> has_member (response (JStr ''eth_sendTransaction'', False, JStr ''User rejected transaction''))
        ''errorMessage''
   \<and> \<not> has_member (response (JStr ''eth_sendTransaction'', False, JStr ''User rejected transaction''))
        ''result''"
  using response_result_xor_errorMessage [of "JStr ''eth_sendTransaction''" JUndefined Reject]
  by (simp add: dispatch_def run_sendTransaction pressed_def)

section \<open>Account access\<close>

text \<open>
  Claim C4: for every \<^verbatim>\<open>eth_requestAccounts\<close> Request, whatever its params, nothing is
  answered before the decision and the run does not throw; rejection gives the one
  Response with \<^verbatim>\<open>success\<close> false and \<^verbatim>\<open>errorMessage\<close> \<^verbatim>\<open>User rejected connection\<close>;
  approval gives the one Response whose \<^verbatim>\<open>result\<close> is the one-element array of the mock
  address \<^verbatim>\<open>0xDUMMY_WALLET_ADDRESS\<close>; and an approved call with any other params gives
  the same answer again.
\<close>

theorem eth_requestAccounts_outcomes:
  "emitted (fst (onEthereumRequest (JStr ''eth_requestAccounts'') params)) = []
   \<and> snd (dispatch (JStr ''eth_requestAccounts'') params d) = None
   \<and> emitted (fst (dispatch (JStr ''eth_requestAccounts'') params Reject)) =
       [(JStr ''eth_requestAccounts'', False, JStr ''User rejected connection'')]
   \<and> map response (emitted (fst (dispatch (JStr ''eth_requestAccounts'') params Reject))) =
       [[(''type'', JStr ''ETH_RESPONSE''), (''method'', JStr ''eth_requestAccounts''),
         (''success'', JBool False), (''errorMessage'', JStr ''User rejected connection'')]]
   \<and> emitted (fst (dispatch (JStr ''eth_requestAccounts'') params Approve)) =
       [(JStr ''eth_requestAccounts'', True, JArr [JStr ''0xDUMMY_WALLET_ADDRESS''])]
   \<and> map response (emitted (fst (dispatch (JStr ''eth_requestAccounts'') params Approve))) =
       [[(''type'', JStr ''ETH_RESPONSE''), (''method'', JStr ''eth_requestAccounts''),
         (''success'', JBool True), (''result'', JArr [JStr ''0xDUMMY_WALLET_ADDRESS''])]]
   \<and> emitted (fst (dispatch (JStr ''eth_requestAccounts'') params' Approve)) =
       emitted (fst (dispatch (JStr ''eth_requestAccounts'') params Approve))"
  by (simp add: dispatch_def run_requestAccounts pressed_def response_def response_object_def)

section \<open>Chain id\<close>

text \<open>
  Claim C5: every \<^verbatim>\<open>eth_chainId\<close> Request, with any params or none, is answered at once,
  without a consent prompt and whatever the decision: the Response has \<^verbatim>\<open>success\<close> true
  and \<^verbatim>\<open>result\<close> \<^verbatim>\<open>0x1\<close>, and a repeated call with any params gives the same Response.
\<close>

theorem eth_chainId_response:
  "onEthereumRequest (JStr ''eth_chainId'') params =
     ([ConsoleLog ''[EIP-1193 REQUEST] method=eth_chainId'' [params],
       ConsoleLog ''[eth_chainId] returning 0x1'' [],
       SendWebViewResponse (JStr ''eth_chainId'') True (JStr ''0x1'')], None)
   \<and> dispatch (JStr ''eth_chainId'') params d = onEthereumRequest (JStr ''eth_chainId'') params
   \<and> map response (emitted (fst (onEthereumRequest (JStr ''eth_chainId'') params))) =
       [[(''type'', JStr ''ETH_RESPONSE''), (''method'', JStr ''eth_chainId''),
         (''success'', JBool True), (''result'', JStr ''0x1'')]]
   \<and> emitted (fst (onEthereumRequest (JStr ''eth_chainId'') params')) =
       emitted (fst (onEthereumRequest (JStr ''eth_chainId'') params))"
  by (simp add: dispatch_def run_chainId response_def response_object_def)

section \<open>Unsupported methods\<close>

text \<open>
  Claim C6: for every method string outside the dispatch table, the dispatch does not
  throw, shows no prompt, and answers at once with one Response whose \<^verbatim>\<open>success\<close> is false
  and whose \<^verbatim>\<open>errorMessage\<close> is \<^verbatim>\<open>Method not supported: \<close> followed by the method, so
  contains the method.
\<close>

theorem unsupported_method_fails:
  assumes "m \<notin> set dispatch_table"
  shows "onEthereumRequest (JStr m) params =
     ([ConsoleLog (''[EIP-1193 REQUEST] method='' @ m) [params],
       ConsoleLog ''[EIP-1193] Unrecognized method:'' [JStr m],
       ToastError (''Method not supported: '' @ m),
       SendWebViewResponse (JStr m) False (JStr (''Method not supported: '' @ m))], None)
   \<and> dispatch (JStr m) params d = onEthereumRequest (JStr m) params
   \<and> map response (emitted (fst (onEthereumRequest (JStr m) params))) =
       [[(''type'', JStr ''ETH_RESPONSE''), (''method'', JStr m), (''success'', JBool False),
         (''errorMessage'', JStr (''Method not supported: '' @ m))]]
   \<and> sublist m (''Method not supported: '' @ m)"
proof -
  from assms have out: "JStr m \<notin> JStr ` set dispatch_table"
    by auto
  have run: "onEthereumRequest (JStr m) params =
     ([ConsoleLog (''[EIP-1193 REQUEST] method='' @ m) [params],
       ConsoleLog ''[EIP-1193] Unrecognized method:'' [JStr m],
       ToastError (''Method not supported: '' @ m),
       SendWebViewResponse (JStr m) False (JStr (''Method not supported: '' @ m))], None)"
    using out by (simp add: run_default)
  have "sublist m (''Method not supported: '' @ m)"
    unfolding sublist_def by (rule exI [of _ "''Method not supported: ''"], rule exI [of _ "[]"]) simp
  then show ?thesis
    by (simp add: run dispatch_def response_def response_object_def)
qed

theorem unsupported_method_fails_witness:
  "''eth_foo'' \<notin> set dispatch_table
   \<and> emitted (fst (dispatch (JStr ''eth_foo'') JUndefined Approve)) =
       [(JStr ''eth_foo'', False, JStr ''Method not supported: eth_foo'')]
   \<and> sublist ''eth_foo'' ''Method not supported: eth_foo''"
proof -
  have h: "''eth_foo'' \<notin> set dispatch_table"
    by (simp add: dispatch_table_def)
  show ?thesis
    using h unsupported_method_fails [OF h, of JUndefined Approve] by simp
qed

section \<open>Signing with short params\<close>

text \<open>
  The claim as stated (C10) says that for params absent, \<open>null\<close> or an array shorter than
  two elements the destructuring falls back to the empty array and the prompt shows
  \<open>undefined\<close> for both message and address. With the one-element array \<^verbatim>\<open>["hi"]\<close> the
  array is truthy, so there is no fallback, and the prompt shows \<^verbatim>\<open>hi\<close> as the message.
\<close>

theorem personal_sign_one_element_counterexample:
  "js_or (JArr [JStr ''hi'']) (JArr []) \<noteq> JArr []
   \<and> prompts (fst (onEthereumRequest (JStr ''personal_sign'') (JArr [JStr ''hi'']))) =
       [''Uniswap wants to sign:'' @ nl @ ''hi'' @ nl @ ''With address:'' @ nl
        @ ''undefined'' @ nl @ ''Allow?'']
   \<and> prompts (fst (onEthereumRequest (JStr ''personal_sign'') (JArr [JStr ''hi'']))) \<noteq>
       [''Uniswap wants to sign:'' @ nl @ ''undefined'' @ nl @ ''With address:'' @ nl
        @ ''undefined'' @ nl @ ''Allow?'']"
  by (simp add: run_personal_sign js_or_def nth_or_undefined_def nl_def)

text \<open>
  Claim C10, amended: for every \<^verbatim>\<open>personal_sign\<close> Request whose params is absent,
  \<open>null\<close> or the empty array, the dispatch does not throw, the prompt shows \<open>undefined\<close>
  for message and address (absent and \<open>null\<close> params falling back to the empty array),
  approval gives the fixed signature and rejection the signature-rejection
  \<^verbatim>\<open>errorMessage\<close>. For a one-element array whose element converts to a string, the
  same holds with that string as the message of the prompt and \<open>undefined\<close> as the
  address.
\<close>

theorem personal_sign_short_params:
  assumes "params = JUndefined \<or> params = JNull \<or> params = JArr []
           \<or> (params = JArr [x] \<and> to_string x = Inr msg)"
  shows "snd (onEthereumRequest (JStr ''personal_sign'') params) = None
   \<and> (params = JUndefined \<or> params = JNull \<longrightarrow> js_or params (JArr []) = JArr [])
   \<and> prompts (fst (onEthereumRequest (JStr ''personal_sign'') params)) =
       [''Uniswap wants to sign:'' @ nl @ (if params = JArr [x] then msg else ''undefined'')
        @ nl @ ''With address:'' @ nl @ ''undefined'' @ nl @ ''Allow?'']
   \<and> emitted (fst (dispatch (JStr ''personal_sign'') params Approve)) =
       [(JStr ''personal_sign'', True, JStr ''0xFAKE_SIGNATURE'')]
   \<and> emitted (fst (dispatch (JStr ''personal_sign'') params Reject)) =
       [(JStr ''personal_sign'', False, JStr ''User rejected signature'')]
   \<and> map response (emitted (fst (dispatch (JStr ''personal_sign'') params Approve))) =
       [[(''type'', JStr ''ETH_RESPONSE''), (''method'', JStr ''personal_sign''),
         (''success'', JBool True), (''result'', JStr ''0xFAKE_SIGNATURE'')]]
   \<and> map response (emitted (fst (dispatch (JStr ''personal_sign'') params Reject))) =
       [[(''type'', JStr ''ETH_RESPONSE''), (''method'', JStr ''personal_sign''),
         (''success'', JBool False), (''errorMessage'', JStr ''User rejected signature'')]]"
  using assms
  by (elim disjE conjE)
     (simp_all add: run_personal_sign dispatch_def pressed_def js_or_def nth_or_undefined_def
        response_def response_object_def)

theorem personal_sign_short_params_witness:
  "to_string (JStr ''hi'') = Inr ''hi''
   \<and> prompts (fst (onEthereumRequest (JStr ''personal_sign'') (JArr [JStr ''hi'']))) =
       [''Uniswap wants to sign:'' @ nl @ ''hi'' @ nl @ ''With address:'' @ nl
        @ ''undefined'' @ nl @ ''Allow?'']
   \<and> emitted (fst (dispatch (JStr ''personal_sign'') (JArr [JStr ''hi'']) Approve)) =
       [(JStr ''personal_sign'', True, JStr ''0xFAKE_SIGNATURE'')]
   \<and> prompts (fst (onEthereumRequest (JStr ''personal_sign'') JUndefined)) =
       [''Uniswap wants to sign:'' @ nl @ ''undefined'' @ nl @ ''With address:'' @ nl
        @ ''undefined'' @ nl @ ''Allow?'']
   \<and> emitted (fst (dispatch (JStr ''personal_sign'') JUndefined Reject)) =
       [(JStr ''personal_sign'', False, JStr ''User rejected signature'')]"
  using personal_sign_short_params [of "JArr [JStr ''hi'']" "JStr ''hi''" "''hi''"]
    personal_sign_short_params [of JUndefined "JStr ''hi''" "''hi''"]
  by simp

section \<open>Settling a pending call\<close>

lemma deliver_not_listening:
  assumes "\<not> pc_listening c"
  shows "fold deliver later c = c"
  using assms by (induction later) (simp_all add: deliver_def)

text \<open>
  The claim as stated (C7) says that on a matching Response with \<^verbatim>\<open>success\<close> false the
  call is rejected with an Error built from \<^verbatim>\<open>errorMessage\<close>, the default text being used
  when \<^verbatim>\<open>errorMessage\<close> is absent. With \<^verbatim>\<open>errorMessage\<close> present and the empty string,
  \<^verbatim>\<open>data.errorMessage || 'Request failed'\<close> takes the default: the Error says
  \<^verbatim>\<open>Request failed\<close>, not the empty text of the message's \<^verbatim>\<open>errorMessage\<close>.
\<close>

theorem handleMessage_empty_errorMessage_counterexample:
  "pc_state (deliver
      (Some (JObj [(''type'', JStr ''ETH_RESPONSE''), (''method'', JStr ''eth_sendTransaction''),
                   (''success'', JBool False), (''errorMessage'', JStr '''')]))
      \<lparr>pc_method = JStr ''eth_sendTransaction'', pc_listening = True, pc_state = Pending\<rparr>)
     = Rejected ''Request failed''
   \<and> pc_state (deliver
      (Some (JObj [(''type'', JStr ''ETH_RESPONSE''), (''method'', JStr ''eth_sendTransaction''),
                   (''success'', JBool False), (''errorMessage'', JStr '''')]))
      \<lparr>pc_method = JStr ''eth_sendTransaction'', pc_listening = True, pc_state = Pending\<rparr>)
     \<noteq> Rejected ''''"
  by (simp add: deliver_def handleMessage_def js_or_def settle_def)

text \<open>
  Claim C7, amended: for every pending call of \<^verbatim>\<open>request\<close> with a string method, an
  inbound message that parses with type \<^verbatim>\<open>ETH_RESPONSE\<close> and the call's method makes the
  listener deregister itself. On such a message the promise is fulfilled with
  \<^verbatim>\<open>result\<close> when \<^verbatim>\<open>success\<close> is true (truthy); it is rejected with the default text
  \<^verbatim>\<open>Request failed\<close> when \<^verbatim>\<open>success\<close> is false (falsy) and \<^verbatim>\<open>errorMessage\<close> is absent or
  otherwise falsy (the empty string, \<open>null\<close>, zero, false); and it is rejected with the
  text of \<^verbatim>\<open>errorMessage\<close> when \<^verbatim>\<open>success\<close> is false (falsy) and \<^verbatim>\<open>errorMessage\<close> is
  truthy and converts to a string, as every non-empty string does. Nothing is said
  here of a truthy \<^verbatim>\<open>errorMessage\<close> that has no conversion to a string. In all cases
  no later message changes the call, so it is settled at most once, and exactly once
  in the three cases above. A message that does not parse, or has another type or
  another method, leaves the listener registered and the call pending.
\<close>

theorem handleMessage_settles_once:
  assumes c: "c = \<lparr>pc_method = JStr m, pc_listening = True, pc_state = Pending\<rparr>"
  shows "(get_prop data ''type'' = Inr (JStr ''ETH_RESPONSE'')
          \<and> get_prop data ''method'' = Inr (JStr m)
          \<and> get_prop data ''success'' = Inr success
          \<and> get_prop data ''result'' = Inr result
          \<and> get_prop data ''errorMessage'' = Inr errorMessage
          \<longrightarrow>
            (truthy success \<longrightarrow>
               deliver (Some data) c = c\<lparr>pc_listening := False, pc_state := Fulfilled result\<rparr>)
          \<and> (\<not> truthy success \<and> \<not> truthy errorMessage \<longrightarrow>
               deliver (Some data) c =
                 c\<lparr>pc_listening := False, pc_state := Rejected ''Request failed''\<rparr>)
          \<and> (\<not> truthy success \<and> truthy errorMessage \<and> to_string errorMessage = Inr text \<longrightarrow>
               deliver (Some data) c = c\<lparr>pc_listening := False, pc_state := Rejected text\<rparr>)
          \<and> \<not> pc_listening (deliver (Some data) c)
          \<and> fold deliver later (deliver (Some data) c) = deliver (Some data) c)
       \<and> (parsed = None
           \<or> (\<exists>other. parsed = Some other
                \<and> (get_prop other ''type'' \<noteq> Inr (JStr ''ETH_RESPONSE'')
                    \<or> get_prop other ''method'' \<noteq> Inr (JStr m)))
          \<longrightarrow> deliver parsed c = c)"
proof (intro conjI impI)
  assume "parsed = None
           \<or> (\<exists>other. parsed = Some other
                \<and> (get_prop other ''type'' \<noteq> Inr (JStr ''ETH_RESPONSE'')
                    \<or> get_prop other ''method'' \<noteq> Inr (JStr m)))"
  then show "deliver parsed c = c"
  proof (elim disjE exE conjE)
    assume "parsed = None"
    then show ?thesis by (simp add: deliver_def handleMessage_def)
  next
    fix other
    assume "parsed = Some other" "get_prop other ''type'' \<noteq> Inr (JStr ''ETH_RESPONSE'')"
    then show ?thesis
      by (simp add: deliver_def handleMessage_def split: sum.splits)
  next
    fix other
    assume p: "parsed = Some other" and "get_prop other ''method'' \<noteq> Inr (JStr m)"
    then have "(case get_prop other ''method'' of Inl e \<Rightarrow> False
                | Inr v \<Rightarrow> strict_eq v (JStr m)) = False"
      by (cases "get_prop other ''method''"; simp)
         (rename_tac v, case_tac v; simp)
    with p show ?thesis
      by (simp add: deliver_def handleMessage_def c split: sum.splits)
  qed
next
  assume h: "get_prop data ''type'' = Inr (JStr ''ETH_RESPONSE'')
          \<and> get_prop data ''method'' = Inr (JStr m)
          \<and> get_prop data ''success'' = Inr success
          \<and> get_prop data ''result'' = Inr result
          \<and> get_prop data ''errorMessage'' = Inr errorMessage"
  show "\<not> pc_listening (deliver (Some data) c)"
    using h by (simp add: deliver_def handleMessage_def c Let_def split: sum.splits)
  then show "fold deliver later (deliver (Some data) c) = deliver (Some data) c"
    by (rule deliver_not_listening)
  {
    assume "truthy success"
    then show "deliver (Some data) c = c\<lparr>pc_listening := False, pc_state := Fulfilled result\<rparr>"
      using h by (simp add: deliver_def handleMessage_def c settle_def)
  }
  {
    assume "\<not> truthy success \<and> \<not> truthy errorMessage"
    then show "deliver (Some data) c =
        c\<lparr>pc_listening := False, pc_state := Rejected ''Request failed''\<rparr>"
      using h by (simp add: deliver_def handleMessage_def c settle_def js_or_def)
  }
  {
    assume "\<not> truthy success \<and> truthy errorMessage \<and> to_string errorMessage = Inr text"
    then show "deliver (Some data) c = c\<lparr>pc_listening := False, pc_state := Rejected text\<rparr>"
      using h by (simp add: deliver_def handleMessage_def c settle_def js_or_def)
  }
qed

theorem handleMessage_settles_once_witness:
  "deliver
     (Some (JObj [(''type'', JStr ''ETH_RESPONSE''), (''method'', JStr ''eth_chainId''),
                  (''success'', JBool True), (''result'', JStr ''0x1'')]))
     \<lparr>pc_method = JStr ''eth_chainId'', pc_listening = True, pc_state = Pending\<rparr>
   = \<lparr>pc_method = JStr ''eth_chainId'', pc_listening = False,
      pc_state = Fulfilled (JStr ''0x1'')\<rparr>
   \<and> deliver None \<lparr>pc_method = JStr ''eth_chainId'', pc_listening = True, pc_state = Pending\<rparr>
     = \<lparr>pc_method = JStr ''eth_chainId'', pc_listening = True, pc_state = Pending\<rparr>"
  using handleMessage_settles_once
    [where c = "\<lparr>pc_method = JStr ''eth_chainId'', pc_listening = True, pc_state = Pending\<rparr>"
       and m = "''eth_chainId''"
       and data = "JObj [(''type'', JStr ''ETH_RESPONSE''), (''method'', JStr ''eth_chainId''),
                         (''success'', JBool True), (''result'', JStr ''0x1'')]"
       and success = "JBool True" and result = "JStr ''0x1''" and errorMessage = JUndefined
       and parsed = None]
  by simp

section \<open>Installation guard\<close>

text \<open>
  Claim C8: when \<^verbatim>\<open>window.ethereum\<close> already holds a capability object as the script
  runs (another wallet's, or this provider from an earlier run; more generally any
  truthy value), the script changes nothing: the object stays, no provider is assigned,
  no timer is set; and the model of the script has no exception to raise.
\<close>

theorem installation_guard:
  assumes "ethereum w = OtherProvider n \<or> ethereum w = Eip1193Provider
           \<or> (ethereum w = Plain v \<and> truthy v)"
  shows "injectedJavaScript w = w"
  using assms by (auto simp add: injectedJavaScript_def)

theorem installation_guard_witness:
  "injectedJavaScript \<lparr>ethereum = OtherProvider 7, outbox = [], timeouts = [], calls = []\<rparr>
     = \<lparr>ethereum = OtherProvider 7, outbox = [], timeouts = [], calls = []\<rparr>"
  using installation_guard
    [of "\<lparr>ethereum = OtherProvider 7, outbox = [], timeouts = [], calls = []\<rparr>" 7 JNull]
  by simp

section \<open>Malformed payloads\<close>

text \<open>
  Claim C9: for every inbound payload that is not JSON, or is JSON whose \<^verbatim>\<open>type\<close> is not
  the expected one (missing included, and the value \<open>null\<close>, on which reading
  \<^verbatim>\<open>data.type\<close> throws), the host's \<^verbatim>\<open>handleWebViewMessage\<close> does nothing or only warns
  (the parse error is swallowed with the warning), emits no response and shows no
  prompt; the provider's \<^verbatim>\<open>handleMessage\<close> leaves the pending call as it was, listener
  registered. Neither handler has an exception to raise: each wraps its whole body in
  \<^verbatim>\<open>try\<close>.
\<close>

theorem malformed_payload_ignored:
  assumes "parsed = None
           \<or> (\<exists>data. parsed = Some data
                \<and> get_prop data ''type'' \<noteq> Inr (JStr ''ETH_REQUEST'')
                \<and> get_prop data ''type'' \<noteq> Inr (JStr ''ETH_RESPONSE''))"
  shows "(handleWebViewMessage parsed = []
          \<or> (\<exists>e. handleWebViewMessage parsed = [ConsoleWarn ''Error parsing message from web:'' e]))
   \<and> (parsed = None \<longrightarrow>
        handleWebViewMessage parsed = [ConsoleWarn ''Error parsing message from web:'' SyntaxError])
   \<and> emitted (handleWebViewMessage parsed) = []
   \<and> prompts (handleWebViewMessage parsed) = []
   \<and> handleMessage method parsed c = c
   \<and> deliver parsed c = c"
  using assms
  by (elim disjE exE conjE)
     (auto simp add: handleWebViewMessage_def handleMessage_def deliver_def split: sum.splits)

theorem malformed_payload_ignored_witness:
  "handleWebViewMessage None = [ConsoleWarn ''Error parsing message from web:'' SyntaxError]
   \<and> handleWebViewMessage (Some (JObj [(''method'', JStr ''eth_chainId'')])) = []
   \<and> deliver (Some (JObj [(''method'', JStr ''eth_chainId'')]))
        \<lparr>pc_method = JStr ''eth_chainId'', pc_listening = True, pc_state = Pending\<rparr>
      = \<lparr>pc_method = JStr ''eth_chainId'', pc_listening = True, pc_state = Pending\<rparr>"
  using malformed_payload_ignored [of None]
    malformed_payload_ignored [of "Some (JObj [(''method'', JStr ''eth_chainId'')])"
      "JStr ''eth_chainId''"
      "\<lparr>pc_method = JStr ''eth_chainId'', pc_listening = True, pc_state = Pending\<rparr>"]
  by (simp add: handleWebViewMessage_def)

section \<open>The relay between the two sides\<close>

lemma sendWebViewResponse_logs:
  assumes "c \<in> set (fst (sendWebViewResponse method success resultOrError))"
  shows "\<exists>s vs. c = ConsoleLog s vs"
  using assms by (auto simp add: sendWebViewResponse_def split: sum.splits)

lemma inline_quiet:
  assumes "quiet c" and "c' \<in> set (inline c)"
  shows "quiet c'"
  using assms by (cases c) (auto dest: sendWebViewResponse_logs)

lemma perform_quiet:
  assumes "quiet c"
  shows "received (perform c s) = received s \<and> posted (perform c s) = posted s
         \<and> page (perform c s) = page s \<and> open_alerts (perform c s) = open_alerts s"
  using assms by (cases c) simp_all

lemma fold_perform_quiet:
  assumes "\<forall>c \<in> set cs. quiet c"
  shows "received (fold perform cs s) = received s \<and> posted (fold perform cs s) = posted s
         \<and> page (fold perform cs s) = page s
         \<and> open_alerts (fold perform cs s) = open_alerts s"
  using assms
proof (induction cs arbitrary: s)
  case Nil
  then show ?case by simp
next
  case (Cons c cs)
  then have "quiet c" and rest: "\<forall>c \<in> set cs. quiet c"
    by simp_all
  from perform_quiet [OF \<open>quiet c\<close>, of s] Cons.IH [OF rest, of "perform c s"]
  show ?case by simp
qed

lemma host_run_quiet:
  assumes "\<forall>c \<in> set cs. quiet c"
  shows "received (host_run cs s) = received s \<and> posted (host_run cs s) = posted s
         \<and> page (host_run cs s) = page s \<and> open_alerts (host_run cs s) = open_alerts s"
proof -
  have "\<forall>c \<in> set (concat (map inline cs)). quiet c"
    using assms inline_quiet by auto
  then show ?thesis
    unfolding host_run_def by (rule fold_perform_quiet)
qed

lemma debug_onPress_run:
  "received (host_run (fst debug_onPress) s) = received s
   \<and> posted (host_run (fst debug_onPress) s) = posted s
   \<and> page (host_run (fst debug_onPress) s) = page s
   \<and> open_alerts (host_run (fst debug_onPress) s) = open_alerts s @
       [[Button ''Reject'' (Some ''destructive'')
           [ToastError ''User rejected wallet connection.'',
            SendWebViewResponse (JStr ''eth_requestAccounts'') False
              (JStr ''User rejected connection'')],
         Button ''Allow'' None
           [ToastSuccess ''Wallet connected (mock).'',
            SendWebViewResponse (JStr ''eth_requestAccounts'') True
              (JArr [JStr ''0xDUMMY_WALLET_ADDRESS''])]]]"
  by (simp add: debug_onPress_def run_requestAccounts host_run_def)

lemma extends_refl: "extends w w"
  by (simp add: extends_def)

lemma extends_timeouts: "extends w (w\<lparr>timeouts := ts\<rparr>)"
  by (simp add: extends_def)

lemma extends_request: "extends w (request method params w)"
  by (simp add: extends_def request_def)

lemma extends_trans:
  assumes "extends w w'" and "extends w' w''"
  shows "extends w w''"
proof -
  from assms(1) obtain new where n: "calls w' = calls w @ new"
    by (metis append_take_drop_id extends_def)
  from assms(2) obtain new' where n': "calls w'' = calls w' @ new'"
    by (metis append_take_drop_id extends_def)
  from assms n have p: "\<forall>c \<in> set new. pc_state c = Pending \<and> pc_listening c"
    by (simp add: extends_def)
  from assms n n' have p': "\<forall>c \<in> set new'. pc_state c = Pending \<and> pc_listening c"
    by (simp add: extends_def)
  from assms n n' p p' show ?thesis
    by (auto simp add: extends_def)
qed

lemma step_inactive:
  assumes "quiet_alerts (open_alerts s)"
  shows "quiet_alerts (open_alerts (step App_WebView ev s))
         \<and> received (step App_WebView ev s) = received s
         \<and> posted (step App_WebView ev s) = posted s
         \<and> extends (page s) (page (step App_WebView ev s))"
proof (cases ev)
  case PressDebug
  with assms show ?thesis
    by (simp add: debug_onPress_run extends_refl) (simp add: quiet_alerts_def)
next
  case (PressAlertButton i j)
  show ?thesis
  proof (cases "i < length (open_alerts s) \<and> j < length (open_alerts s ! i)")
    case True
    then have "open_alerts s ! i \<in> set (open_alerts s)" and "open_alerts s ! i ! j \<in> set (open_alerts s ! i)"
      by simp_all
    with assms have q: "\<forall>c \<in> set (onPress (open_alerts s ! i ! j)). quiet c"
      unfolding quiet_alerts_def by blast
    have sub: "set (take i (open_alerts s) @ drop (Suc i) (open_alerts s)) \<subseteq> set (open_alerts s)"
      using set_take_subset set_drop_subset by fastforce
    with assms have "quiet_alerts (take i (open_alerts s) @ drop (Suc i) (open_alerts s))"
      unfolding quiet_alerts_def by blast
    with True PressAlertButton
      host_run_quiet [OF q, of "s\<lparr>open_alerts := take i (open_alerts s) @ drop (Suc i) (open_alerts s)\<rparr>"]
    show ?thesis
      by (simp add: extends_refl)
  next
    case False
    with assms PressAlertButton show ?thesis
      by (auto simp add: extends_refl)
  qed
next
  case PageLoaded
  with assms show ?thesis
    by (simp add: App_WebView_def extends_refl)
next
  case (PageCallsRequest m p)
  with assms show ?thesis
    by (simp add: App_WebView_def page_request_def to_host_def extends_refl extends_request)
next
  case TimeoutFires
  show ?thesis
  proof (cases "timeouts (page s)")
    case Nil
    with assms TimeoutFires show ?thesis
      by (simp add: extends_refl)
  next
    case (Cons t ts)
    have "extends (page s) (request (snd t) JUndefined ((page s)\<lparr>timeouts := ts\<rparr>))"
      using extends_timeouts extends_request by (rule extends_trans)
    with assms TimeoutFires Cons show ?thesis
      by (simp add: App_WebView_def page_request_def to_host_def Let_def extends_timeouts)
  qed
next
  case (PagePostsMessage parsed)
  with assms show ?thesis
    by (simp add: App_WebView_def to_host_def extends_refl)
qed

lemma run_events_inactive:
  assumes "quiet_alerts (open_alerts s)"
  shows "received (run_events App_WebView evs s) = received s
         \<and> posted (run_events App_WebView evs s) = posted s
         \<and> extends (page s) (page (run_events App_WebView evs s))"
  using assms
proof (induction evs arbitrary: s)
  case Nil
  then show ?case by (simp add: run_events_def extends_refl)
next
  case (Cons ev evs)
  note one = step_inactive [OF Cons.prems, of ev]
  then have "quiet_alerts (open_alerts (step App_WebView ev s))"
    by simp
  from Cons.IH [OF this] one show ?case
    by (auto simp add: run_events_def intro: extends_trans)
qed

text \<open>
  Claim C3: in the source as it is, the relay is inactive. The \<^verbatim>\<open>WebView\<close> is mounted
  without \<^verbatim>\<open>onMessage\<close> and without \<^verbatim>\<open>injectedJavaScript\<close>, and
  \<^verbatim>\<open>sendWebViewResponse\<close> only logs. So, from the first render, with any window in the
  page and after any sequence of events (the debug button, buttons of alerts, the page
  loading, the page calling \<^verbatim>\<open>request\<close> or posting any message, timers firing), the
  host's handler has been given no message, nothing has been posted into the page, and
  the calls of the page are those it had, unchanged, followed by new ones that are all
  pending: no pending call is ever settled.
\<close>

theorem relay_inactive:
  "wv_onMessage App_WebView = None \<and> wv_injectedJavaScript App_WebView = None
   \<and> (\<forall>c \<in> set (fst (sendWebViewResponse method success resultOrError)).
         \<exists>s vs. c = ConsoleLog s vs)
   \<and> (let s' = run_events App_WebView evs (initial\<lparr>page := w\<rparr>) in
        received s' = [] \<and> posted s' = []
        \<and> take (length (calls w)) (calls (page s')) = calls w
        \<and> (\<forall>c \<in> set (drop (length (calls w)) (calls (page s'))). pc_state c = Pending))"
proof -
  have "quiet_alerts (open_alerts (initial\<lparr>page := w\<rparr>))"
    by (simp add: initial_def quiet_alerts_def)
  from run_events_inactive [OF this, of evs] show ?thesis
    using sendWebViewResponse_logs
    by (simp add: App_WebView_def initial_def extends_def Let_def)
qed


theorem relay_inactive_witness:
  "received (run_events App_WebView
      [PressDebug, PressAlertButton 0 1, PageLoaded,
       PagePostsMessage (Some (JObj (request_object (JStr ''eth_chainId'') JUndefined))),
       PageCallsRequest (JStr ''eth_chainId'') JUndefined, TimeoutFires]
      (initial\<lparr>page :=
         \<lparr>ethereum = Eip1193Provider, outbox = [],
          timeouts = [(3000, JStr ''eth_requestAccounts'')],
          calls = [\<lparr>pc_method = JStr ''eth_accounts'', pc_listening = True,
                    pc_state = Pending\<rparr>]\<rparr>\<rparr>)) = []
   \<and> posted (run_events App_WebView
      [PressDebug, PressAlertButton 0 1, PageLoaded,
       PagePostsMessage (Some (JObj (request_object (JStr ''eth_chainId'') JUndefined))),
       PageCallsRequest (JStr ''eth_chainId'') JUndefined, TimeoutFires]
      (initial\<lparr>page :=
         \<lparr>ethereum = Eip1193Provider, outbox = [],
          timeouts = [(3000, JStr ''eth_requestAccounts'')],
          calls = [\<lparr>pc_method = JStr ''eth_accounts'', pc_listening = True,
                    pc_state = Pending\<rparr>]\<rparr>\<rparr>)) = []
   \<and> map pc_state (calls (page (run_events App_WebView
      [PressDebug, PressAlertButton 0 1, PageLoaded,
       PagePostsMessage (Some (JObj (request_object (JStr ''eth_chainId'') JUndefined))),
       PageCallsRequest (JStr ''eth_chainId'') JUndefined, TimeoutFires]
      (initial\<lparr>page :=
         \<lparr>ethereum = Eip1193Provider, outbox = [],
          timeouts = [(3000, JStr ''eth_requestAccounts'')],
          calls = [\<lparr>pc_method = JStr ''eth_accounts'', pc_listening = True,
                    pc_state = Pending\<rparr>]\<rparr>\<rparr>)))) = [Pending, Pending, Pending]"
  using relay_inactive
    [of "JStr ''eth_accounts''" True JNull
       "[PressDebug, PressAlertButton 0 1, PageLoaded,
         PagePostsMessage (Some (JObj (request_object (JStr ''eth_chainId'') JUndefined))),
         PageCallsRequest (JStr ''eth_chainId'') JUndefined, TimeoutFires]"
       "\<lparr>ethereum = Eip1193Provider, outbox = [],
          timeouts = [(3000, JStr ''eth_requestAccounts'')],
          calls = [\<lparr>pc_method = JStr ''eth_accounts'', pc_listening = True,
                    pc_state = Pending\<rparr>]\<rparr>"]
  by (simp add: run_events_def debug_onPress_def run_requestAccounts host_run_def
        sendWebViewResponse_def App_WebView_def page_request_def to_host_def request_def initial_def Let_def)

end
